theory Spec2Isabelle
  imports Complex_Main
begin

section \<open>Values exchanged with the outside world\<close>

text \<open>
  The backend of \<^verbatim>\<open>src/app.py\<close> moves JSON between a Flask request, one outbound
  POST of the \<^verbatim>\<open>requests\<close> library and a Flask response. A JSON document is what
  Python's decoder makes of it: \<^verbatim>\<open>None\<close>, \<^verbatim>\<open>bool\<close>, \<^verbatim>\<open>int\<close>, \<^verbatim>\<open>float\<close>,
  \<^verbatim>\<open>str\<close>, \<^verbatim>\<open>list\<close> and \<^verbatim>\<open>dict\<close>. The decoder also reads \<^verbatim>\<open>Infinity\<close>,
  \<^verbatim>\<open>-Infinity\<close> and \<^verbatim>\<open>NaN\<close>, so a \<^verbatim>\<open>float\<close> is a finite number or one of these
  three. A \<^verbatim>\<open>dict\<close> is an association list in insertion order whose keys are distinct;
  a lookup takes the entry of the key.

  A \<^verbatim>\<open>str\<close> is the list of the bytes of its UTF-8 encoding, so the text of the source
  that is not ASCII is written byte by byte. A Python \<^verbatim>\<open>str\<close> can also hold a lone
  surrogate (the decoder makes one of an escaped surrogate that stands alone); it is
  written as the three bytes
  \<^verbatim>\<open>ED A0..BF 80..BF\<close> that the encoder gives with \<^verbatim>\<open>surrogatepass\<close>.
\<close>

datatype pyfloat = Finite rat | PosInf | NegInf | NaN

datatype json =
    JNull
  | JBool bool
  | JInt int
  | JFloat pyfloat
  | JStr string
  | JArr "json list"
  | JObj "(string \<times> json) list"

text \<open>
  A Python exception is its class and the text \<^verbatim>\<open>str(e)\<close> gives. The classes are the
  ones this program can meet: those of \<^verbatim>\<open>requests.exceptions\<close> (all of them subclasses
  of \<^verbatim>\<open>RequestException\<close>), the interpreter's own errors, the two errors Flask raises
  when \<^verbatim>\<open>request.json\<close> cannot be produced, and the plain \<^verbatim>\<open>Exception\<close> that the
  completion client raises itself. All of them derive from \<^verbatim>\<open>Exception\<close>;
  \<^verbatim>\<open>KeyboardInterrupt\<close> and \<^verbatim>\<open>SystemExit\<close>, which no \<^verbatim>\<open>except Exception\<close>
  catches, are not part of the model.
\<close>

datatype exc_class =
    HTTPError
  | ConnectionError
  | Timeout
  | InvalidJSONError
  | RequestsJSONDecodeError
  | RequestException
  | KeyError
  | IndexError
  | TypeError
  | AttributeError
  | ValueError
  | UnicodeEncodeError
  | BadRequest
  | UnsupportedMediaType
  | Exception

datatype exc = Exc (exc_class_of: exc_class) (exc_str: string)

text \<open>\<^verbatim>\<open>isinstance(e, requests.exceptions.RequestException)\<close>.\<close>

fun is_RequestException :: "exc_class \<Rightarrow> bool" where
  "is_RequestException HTTPError = True"
| "is_RequestException ConnectionError = True"
| "is_RequestException Timeout = True"
| "is_RequestException InvalidJSONError = True"
| "is_RequestException RequestsJSONDecodeError = True"
| "is_RequestException RequestException = True"
| "is_RequestException _ = False"

text \<open>Sequencing of statements that may raise: the first exception ends the block.\<close>

definition and_then :: "exc + 'a \<Rightarrow> ('a \<Rightarrow> exc + 'b) \<Rightarrow> exc + 'b" where
  "and_then r f = (case r of Inl e \<Rightarrow> Inl e | Inr v \<Rightarrow> f v)"

subsection \<open>The interpreter's subscripts and attribute access\<close>

definition py_type_name :: "json \<Rightarrow> string" where
  "py_type_name v =
     (case v of
        JNull \<Rightarrow> ''NoneType''
      | JBool _ \<Rightarrow> ''bool''
      | JInt _ \<Rightarrow> ''int''
      | JFloat _ \<Rightarrow> ''float''
      | JStr _ \<Rightarrow> ''str''
      | JArr _ \<Rightarrow> ''list''
      | JObj _ \<Rightarrow> ''dict'')"

definition not_subscriptable :: "json \<Rightarrow> exc" where
  "not_subscriptable v =
     Exc TypeError ([CHR 0x27] @ py_type_name v @ [CHR 0x27] @ '' object is not subscriptable'')"

text \<open>
  \<^verbatim>\<open>v[key]\<close> with a \<^verbatim>\<open>str\<close> key: a \<^verbatim>\<open>dict\<close> gives the entry or raises
  \<^verbatim>\<open>KeyError(key)\<close>, whose text is the \<^verbatim>\<open>repr\<close> of the key; a \<^verbatim>\<open>list\<close> and a
  \<^verbatim>\<open>str\<close> raise \<^verbatim>\<open>TypeError\<close>, as does every value that has no subscript.
\<close>

definition getitem_key :: "json \<Rightarrow> string \<Rightarrow> exc + json" where
  "getitem_key v key =
     (case v of
        JObj kvs \<Rightarrow>
          (case map_of kvs key of
             Some x \<Rightarrow> Inr x
           | None \<Rightarrow> Inl (Exc KeyError ([CHR 0x27] @ key @ [CHR 0x27])))
      | JArr _ \<Rightarrow> Inl (Exc TypeError ''list indices must be integers or slices, not str'')
      | JStr _ \<Rightarrow> Inl (Exc TypeError (''string indices must be integers, not 'str'' @ [CHR 0x27]))
      | _ \<Rightarrow> Inl (not_subscriptable v))"

text \<open>The number of bytes of the UTF-8 sequence that starts with the byte \<open>c\<close>.\<close>

definition utf8_width :: "char \<Rightarrow> nat" where
  "utf8_width c =
     (let n = (of_char c :: nat)
      in if n < 0x80 then 1 else if n < 0xE0 then 2 else if n < 0xF0 then 3 else 4)"

text \<open>
  \<^verbatim>\<open>v[0]\<close>: the first element of a \<^verbatim>\<open>list\<close>, the first character of a \<^verbatim>\<open>str\<close>,
  \<^verbatim>\<open>IndexError\<close> when either is empty; on a \<^verbatim>\<open>dict\<close> decoded from JSON, whose keys are
  all strings, \<^verbatim>\<open>KeyError(0)\<close>.
\<close>

definition getitem_0 :: "json \<Rightarrow> exc + json" where
  "getitem_0 v =
     (case v of
        JArr xs \<Rightarrow>
          (case xs of
             [] \<Rightarrow> Inl (Exc IndexError ''list index out of range'')
           | x # _ \<Rightarrow> Inr x)
      | JStr s \<Rightarrow>
          (case s of
             [] \<Rightarrow> Inl (Exc IndexError ''string index out of range'')
           | c # _ \<Rightarrow> Inr (JStr (take (utf8_width c) s)))
      | JObj _ \<Rightarrow> Inl (Exc KeyError ''0'')
      | _ \<Rightarrow> Inl (not_subscriptable v))"

text \<open>
  \<^verbatim>\<open>v.get(key, default)\<close>: only a \<^verbatim>\<open>dict\<close> has the method; on anything else the
  attribute access raises \<^verbatim>\<open>AttributeError\<close>.
\<close>

definition dict_get :: "json \<Rightarrow> string \<Rightarrow> json \<Rightarrow> exc + json" where
  "dict_get v key dflt =
     (case v of
        JObj kvs \<Rightarrow> Inr (case map_of kvs key of Some x \<Rightarrow> x | None \<Rightarrow> dflt)
      | _ \<Rightarrow>
          Inl (Exc AttributeError
                 ([CHR 0x27] @ py_type_name v @ [CHR 0x27] @ '' object has no attribute 'get'' @
                  [CHR 0x27])))"

subsection \<open>The console\<close>

text \<open>
  \<^verbatim>\<open>print\<close> writes to a standard output that encodes UTF-8 with the \<^verbatim>\<open>strict\<close>
  handler. Every \<^verbatim>\<open>str\<close> is written, except one that holds a lone surrogate: for it
  the encoder raises \<^verbatim>\<open>UnicodeEncodeError\<close>, naming the first run of surrogates by its
  position, counted in code points.
\<close>

function str_nat :: "nat \<Rightarrow> string" where
  "str_nat n =
     (if n < 10 then [char_of (48 + n)]
      else str_nat (n div 10) @ [char_of (48 + n mod 10)])"
  by pat_completeness auto
termination
  by (relation "measure (\<lambda>n. n)") auto

text \<open>The code point of one UTF-8 sequence, given its bytes.\<close>

definition utf8_point :: "string \<Rightarrow> nat" where
  "utf8_point bs =
     (case bs of
        [] \<Rightarrow> 0
      | c # cs \<Rightarrow>
          foldl (\<lambda>n b. n * 64 + (of_char b :: nat) mod 64)
            (let n = (of_char c :: nat)
             in if n < 0x80 then n else if n < 0xE0 then n mod 32
                else if n < 0xF0 then n mod 16 else n mod 8)
            cs)"

function utf8_decode :: "string \<Rightarrow> nat list" where
  "utf8_decode [] = []"
| "utf8_decode (c # cs) =
     utf8_point (take (utf8_width c) (c # cs)) # utf8_decode (drop (utf8_width c - 1) cs)"
  by pat_completeness auto
termination
  by (relation "measure length") auto

definition is_surrogate :: "nat \<Rightarrow> bool" where
  "is_surrogate n = (0xD800 \<le> n \<and> n \<le> 0xDFFF)"

definition hex_digit :: "nat \<Rightarrow> char" where
  "hex_digit d = (if d < 10 then char_of (48 + d) else char_of (87 + d))"

definition hex4 :: "nat \<Rightarrow> string" where
  "hex4 n = map hex_digit [n div 4096 mod 16, n div 256 mod 16, n div 16 mod 16, n mod 16]"

text \<open>\<^verbatim>\<open>print(text)\<close>: nothing, or the exception of the encoder.\<close>

definition py_print :: "string \<Rightarrow> exc option" where
  "py_print text =
     (let points = utf8_decode text;
          start = length (takeWhile (\<lambda>n. \<not> is_surrogate n) points);
          run = takeWhile is_surrogate (drop start points)
      in case run of
           [] \<Rightarrow> None
         | [n] \<Rightarrow>
             Some (Exc UnicodeEncodeError
                     ([CHR 0x27] @ ''utf-8'' @ [CHR 0x27] @ '' codec can't encode character '' @
                      [CHR 0x27, CHR 0x5C] @ ''u'' @ hex4 n @ [CHR 0x27] @ '' in position '' @
                      str_nat start @ '': surrogates not allowed''))
         | _ \<Rightarrow>
             Some (Exc UnicodeEncodeError
                     ([CHR 0x27] @ ''utf-8'' @ [CHR 0x27] @ '' codec can't encode characters'' @
                      '' in position '' @ str_nat start @ ''-'' @
                      str_nat (start + length run - 1) @ '': surrogates not allowed'')))"

text \<open>
  \<^verbatim>\<open>print(f"{label}{v}")\<close> for a JSON value \<open>v\<close> and a fixed label without surrogates.
  A \<^verbatim>\<open>str\<close> goes into the text as it is. The text of every other value is built with
  \<^verbatim>\<open>repr\<close>, which escapes a surrogate, so it is always written.
\<close>

definition print_value :: "string \<Rightarrow> json \<Rightarrow> exc option" where
  "print_value label v = (case v of JStr s \<Rightarrow> py_print (label @ s) | _ \<Rightarrow> None)"

section \<open>Configuration\<close>

text \<open>
  \<^verbatim>\<open>os.environ\<close> after \<^verbatim>\<open>load_dotenv()\<close>; \<^verbatim>\<open>os.getenv(k)\<close> is \<^verbatim>\<open>None\<close> for a variable
  that is not set. An f-string prints \<^verbatim>\<open>None\<close> as the text \<^verbatim>\<open>None\<close>.
\<close>

type_synonym environ = "string \<rightharpoonup> string"

definition os_getenv :: "environ \<Rightarrow> string \<Rightarrow> string option" where
  "os_getenv env k = env k"

definition fstr :: "string option \<Rightarrow> string" where
  "fstr v = (case v of None \<Rightarrow> ''None'' | Some s \<Rightarrow> s)"

definition SYSTEM_PROMPT :: string where
  "SYSTEM_PROMPT =
     ''You are an AI assistant that helps people find movies and show recommendations on Netflix.\<newline>'' @
     ''\<newline>'' @
     ''IMPORTANT FORMATTING RULES:\<newline>'' @
     ''- Use bullet points with emojis for lists\<newline>'' @
     ''- Use clear section headings\<newline>'' @
     ''- Keep responses well-structured and easy to read\<newline>'' @
     ''- Use line breaks between sections\<newline>'' @
     ''- Bold important titles or key points\<newline>'' @
     ''- Use a friendly, engaging tone\<newline>'' @
     ''\<newline>'' @
     ''RESPONSE STRUCTURE:\<newline>'' @
     [CHR 0xF0, CHR 0x9F, CHR 0x8E, CHR 0xAC] @ '' **Movie/TV Show Recommendations:**\<newline>'' @
     [CHR 0xE2, CHR 0x80, CHR 0xA2] @ '' Title 1 (Year) - Brief description\<newline>'' @
     [CHR 0xE2, CHR 0x80, CHR 0xA2] @ '' Title 2 (Year) - Brief description\<newline>'' @
     ''\<newline>'' @
     [CHR 0xF0, CHR 0x9F, CHR 0x93, CHR 0x9D] @ '' **Why you might like these:**\<newline>'' @
     [CHR 0xE2, CHR 0x80, CHR 0xA2] @ '' Reason 1\<newline>'' @
     [CHR 0xE2, CHR 0x80, CHR 0xA2] @ '' Reason 2\<newline>'' @
     ''\<newline>'' @
     [CHR 0xF0, CHR 0x9F, CHR 0x92, CHR 0xA1] @ '' **Pro Tip:** Helpful additional information\<newline>'' @
     ''\<newline>'' @
     ''Use only the tv shows and movies that are given in the prompt. Give the user a concise and helpful response.\<newline>'' @
     ''If you don't know about a movie or it's not available on Netflix, be honest about it.\<newline>'' @
     ''\<newline>'' @
     ''Keep responses friendly and helpful! Use Netflix-style recommendations with engaging formatting.''"

section \<open>The outbound call\<close>

text \<open>
  What \<^verbatim>\<open>requests.post(url, headers=..., json=..., timeout=...)\<close> is given. A header
  whose variable is not set carries \<^verbatim>\<open>None\<close>.
\<close>

record http_request =
  post_url :: string
  post_headers :: "(string \<times> string option) list"
  post_json :: json
  post_timeout :: nat

text \<open>
  What it gives back: the status line, the URL of the response, and what
  \<^verbatim>\<open>response.json()\<close> does with the body, the decoded document or the exception
  of the decoder.
\<close>

record response =
  status_code :: nat
  reason :: string
  resp_url :: string
  json_body :: "exc + json"

text \<open>
  The network is a parameter: a function from the request that goes out to the
  exception the transport raises or the response it returns. The module-level
  \<^verbatim>\<open>requests.post\<close> runs a session that trusts the environment: at every call it
  reads proxies, certificate bundles and \<^verbatim>\<open>netrc\<close> from \<^verbatim>\<open>os.environ\<close>. The network
  is therefore given the environment of the moment as well.
\<close>

type_synonym network = "environ \<Rightarrow> http_request \<Rightarrow> exc + response"

text \<open>
  \<^verbatim>\<open>json.dumps(v, allow_nan=False)\<close> accepts \<open>v\<close>: no \<^verbatim>\<open>float\<close> in it is infinite or
  \<^verbatim>\<open>NaN\<close>.
\<close>

fun json_finite :: "json \<Rightarrow> bool" where
  "json_finite (JFloat f) = (case f of Finite _ \<Rightarrow> True | _ \<Rightarrow> False)"
| "json_finite (JArr xs) = list_all json_finite xs"
| "json_finite (JObj kvs) = list_all (\<lambda>kv. json_finite (snd kv)) kvs"
| "json_finite _ = True"

text \<open>
  \<^verbatim>\<open>requests.post\<close>: the body is serialised first, and a body that cannot be
  serialised raises \<^verbatim>\<open>InvalidJSONError\<close> before anything is sent. Otherwise the
  request goes to the network. The second component lists the requests that went out.
\<close>

definition requests_post ::
  "environ \<Rightarrow> network \<Rightarrow> http_request \<Rightarrow> (exc + response) \<times> http_request list" where
  "requests_post env net req =
     (if json_finite (post_json req) then (net env req, [req])
      else (Inl (Exc InvalidJSONError ''Out of range float values are not JSON compliant''), []))"

text \<open>
  \<^verbatim>\<open>response.raise_for_status()\<close> of the \<^verbatim>\<open>requests\<close> library: an \<^verbatim>\<open>HTTPError\<close> for
  a status from 400 to 599, nothing for any other status.
\<close>

definition raise_for_status :: "response \<Rightarrow> exc option" where
  "raise_for_status r =
     (if 400 \<le> status_code r \<and> status_code r < 500 then
        Some (Exc HTTPError
                (str_nat (status_code r) @ '' Client Error: '' @ reason r @
                 '' for url: '' @ resp_url r))
      else if 500 \<le> status_code r \<and> status_code r < 600 then
        Some (Exc HTTPError
                (str_nat (status_code r) @ '' Server Error: '' @ reason r @
                 '' for url: '' @ resp_url r))
      else None)"

text \<open>Lines 53 to 67 and the arguments of line 70: the request the client builds.\<close>

definition completion_request :: "environ \<Rightarrow> json \<Rightarrow> http_request" where
  "completion_request env user_message =
     \<lparr> post_url =
         fstr (os_getenv env ''AZURE_OPENAI_ENDPOINT'') @ ''/openai/deployments/'' @
         fstr (os_getenv env ''AZURE_OPENAI_DEPLOYMENT_NAME'') @
         ''/chat/completions?api-version='' @
         fstr (os_getenv env ''AZURE_OPENAI_API_VERSION''),
       post_headers =
         [(''Content-Type'', Some ''application/json''),
          (''api-key'', os_getenv env ''AZURE_OPENAI_API_KEY'')],
       post_json =
         JObj [(''messages'',
                JArr [JObj [(''role'', JStr ''system''), (''content'', JStr SYSTEM_PROMPT)],
                      JObj [(''role'', JStr ''user''), (''content'', user_message)]]),
               (''max_tokens'', JInt 800),
               (''temperature'', JFloat (Finite (7 / 10)))],
       post_timeout = 30 \<rparr>"

text \<open>
  Lines 71 to 74: the status of the response is checked, its body is decoded and
  \<^verbatim>\<open>result['choices'][0]['message']['content']\<close> is read.
\<close>

definition read_content :: "response \<Rightarrow> exc + json" where
  "read_content response =
     (case raise_for_status response of
        Some e \<Rightarrow> Inl e
      | None \<Rightarrow>
          and_then (json_body response) (\<lambda>result.
          and_then (getitem_key result ''choices'') (\<lambda>choices.
          and_then (getitem_0 choices) (\<lambda>choice.
          and_then (getitem_key choice ''message'') (\<lambda>message.
          getitem_key message ''content'')))))"

text \<open>
  The three \<^verbatim>\<open>except\<close> clauses of lines 76 to 84, in the source's order: what is
  raised in place of an exception \<open>e\<close> of the \<^verbatim>\<open>try\<close> block.
\<close>

definition reraise :: "exc \<Rightarrow> exc" where
  "reraise e =
     (if is_RequestException (exc_class_of e) then
        Exc Exception (''Network error: '' @ exc_str e)
      else if exc_class_of e = KeyError then
        Exc Exception ''Invalid response format from Azure OpenAI''
      else e)"

text \<open>
  Lines 53 to 74, the body of the \<^verbatim>\<open>try\<close>: the request is built and posted and the
  content is read from the response. The result is the value returned or the first
  exception raised, and the requests that went out. The \<^verbatim>\<open>print\<close> of line 69 and
  those of the \<^verbatim>\<open>except\<close> clauses write a fixed label and the text of an exception;
  they are taken to succeed and are left out.
\<close>

definition try_block ::
  "environ \<Rightarrow> network \<Rightarrow> json \<Rightarrow> (exc + json) \<times> http_request list" where
  "try_block env net user_message =
     (case requests_post env net (completion_request env user_message) of
        (answer, sent) \<Rightarrow> (and_then answer read_content, sent))"

text \<open>
  \<^verbatim>\<open>call_azure_openai(user_message)\<close>: the returned value or the exception that
  leaves the function, together with the requests that went out.
\<close>

definition call_azure_openai ::
  "environ \<Rightarrow> network \<Rightarrow> json \<Rightarrow> (exc + json) \<times> http_request list" where
  "call_azure_openai env net user_message =
     (case try_block env net user_message of
        (Inl e, sent) \<Rightarrow> (Inl (reraise e), sent)
      | (Inr content, sent) \<Rightarrow> (Inr content, sent))"

section \<open>The process and its routes\<close>

text \<open>
  The state of the process the handlers read: the environment and the module-level
  \<^verbatim>\<open>azure_connected\<close>. No handler assigns either.
\<close>

record process =
  environ :: environ
  azure_connected :: bool

text \<open>
  Lines 86 to 93: the self-test at import time sets the flag. The reply is printed
  inside the \<^verbatim>\<open>try\<close>, so a reply that cannot be printed leaves the flag false.
\<close>

definition self_test_label :: string where
  "self_test_label =
     [CHR 0xE2, CHR 0x9C, CHR 0x85] @ '' Azure OpenAI connection test successful! Response: ''"

definition startup :: "environ \<Rightarrow> network \<Rightarrow> process" where
  "startup env net =
     \<lparr> environ = env,
       azure_connected =
         (case fst (call_azure_openai env net (JStr ''What are 2 popular movies on Netflix?'')) of
            Inl _ \<Rightarrow> False
          | Inr test_response \<Rightarrow>
              (case print_value self_test_label test_response of
                 Some _ \<Rightarrow> False
               | None \<Rightarrow> True)) \<rparr>"

text \<open>
  A Flask view returns \<^verbatim>\<open>jsonify(d)\<close>, status 200, or \<^verbatim>\<open>(jsonify(d), 500)\<close>.
\<close>

record http_response =
  status :: nat
  body :: json

text \<open>
  The inbound request, as far as a view looks at it: what evaluating \<^verbatim>\<open>request.json\<close>
  does, the decoded body or the exception Flask raises when there is none.
\<close>

record flask_request =
  request_json :: "exc + json"

definition connected_text :: "bool \<Rightarrow> json" where
  "connected_text c = JStr (if c then ''Connected'' else ''Not connected'')"

definition home :: "process \<Rightarrow> http_response" where
  "home p =
     \<lparr> status = 200,
       body = JObj [(''message'', JStr ''Movie Recommendation Backend is running!''),
                    (''status'', JStr ''success''),
                    (''azure_openai'', connected_text (azure_connected p))] \<rparr>"

text \<open>Lines 126 to 131: the response of the \<^verbatim>\<open>except Exception\<close> clause of \<^verbatim>\<open>chat\<close>.\<close>

definition chat_error :: "exc \<Rightarrow> http_response" where
  "chat_error e =
     \<lparr> status = 500,
       body = JObj [(''reply'',
                     JStr (''I'm having trouble connecting to the movie database: '' @ exc_str e)),
                    (''status'', JStr ''error'')] \<rparr>"

text \<open>The labels of the two \<^verbatim>\<open>print\<close> statements of lines 114 and 119.\<close>

definition user_message_label :: string where
  "user_message_label = [CHR 0xF0, CHR 0x9F, CHR 0x93, CHR 0xA8] @ '' User message: ''"

definition bot_response_label :: string where
  "bot_response_label = [CHR 0xF0, CHR 0x9F, CHR 0xA4, CHR 0x96] @ '' Bot response: ''"

text \<open>
  \<^verbatim>\<open>chat()\<close>: the response and the requests sent to the network while it ran. The
  message is printed before the client is called and the reply before the response is
  built, both inside the \<^verbatim>\<open>try\<close>. The \<^verbatim>\<open>print\<close> of the \<^verbatim>\<open>except\<close> clause writes
  the text of an exception; it is taken to succeed and is left out.
\<close>

definition chat :: "process \<Rightarrow> network \<Rightarrow> flask_request \<Rightarrow> http_response \<times> http_request list" where
  "chat p net request =
     (if \<not> azure_connected p then
        (\<lparr> status = 500,
           body = JObj [(''reply'',
                         JStr ''Azure OpenAI is not connected. Please check your configuration.''),
                        (''status'', JStr ''error'')] \<rparr>, [])
      else
        (case and_then (request_json request) (\<lambda>j. dict_get j ''message'' (JStr '''')) of
           Inl e \<Rightarrow> (chat_error e, [])
         | Inr user_message \<Rightarrow>
             (case print_value user_message_label user_message of
                Some e \<Rightarrow> (chat_error e, [])
              | None \<Rightarrow>
                  (case call_azure_openai (environ p) net user_message of
                     (Inl e, sent) \<Rightarrow> (chat_error e, sent)
                   | (Inr bot_reply, sent) \<Rightarrow>
                       (case print_value bot_response_label bot_reply of
                          Some e \<Rightarrow> (chat_error e, sent)
                        | None \<Rightarrow>
                            (\<lparr> status = 200,
                               body = JObj [(''reply'', bot_reply),
                                            (''status'', JStr ''success'')] \<rparr>,
                             sent))))))"

definition health_check :: "process \<Rightarrow> http_response" where
  "health_check p =
     \<lparr> status = 200,
       body = JObj [(''status'', JStr ''Backend is running!''),
                    (''azure_openai'', connected_text (azure_connected p)),
                    (''deployment'',
                     (case os_getenv (environ p) ''AZURE_OPENAI_DEPLOYMENT_NAME'' of
                        None \<Rightarrow> JNull
                      | Some d \<Rightarrow> JStr d))] \<rparr>"

definition test_connection :: "process \<Rightarrow> network \<Rightarrow> http_response \<times> http_request list" where
  "test_connection p net =
     (case call_azure_openai (environ p) net (JStr ''What are 2 popular movies on Netflix?'') of
        (Inr test_response, sent) \<Rightarrow>
          (\<lparr> status = 200,
             body = JObj [(''success'', JBool True),
                          (''response'', test_response),
                          (''message'', JStr ''Azure OpenAI is working!'')] \<rparr>, sent)
      | (Inl e, sent) \<Rightarrow>
          (\<lparr> status = 500,
             body = JObj [(''success'', JBool False), (''error'', JStr (exc_str e))] \<rparr>, sent))"

section \<open>Sample upstreams, environments and processes\<close>

text \<open>
  Concrete inputs for the examples below: an upstream that answers every request with
  a given status and body, one that fails with a given exception, the document the
  completion service sends, a filled environment, and the two processes that the
  self-test leaves behind against a working and against an unreachable upstream.
\<close>

definition upstream_returns :: "nat \<Rightarrow> string \<Rightarrow> exc + json \<Rightarrow> network" where
  "upstream_returns code why doc env req =
     Inr \<lparr> status_code = code, reason = why, resp_url = post_url req, json_body = doc \<rparr>"

definition upstream_raises :: "exc \<Rightarrow> network" where
  "upstream_raises e env req = Inl e"

definition completion_doc :: "json \<Rightarrow> json" where
  "completion_doc content =
     JObj [(''choices'', JArr [JObj [(''message'', JObj [(''content'', content)])]])]"

definition example_env :: environ where
  "example_env =
     [''AZURE_OPENAI_ENDPOINT'' \<mapsto> ''https://movies.openai.azure.com'',
      ''AZURE_OPENAI_API_VERSION'' \<mapsto> ''2024-02-01'',
      ''AZURE_OPENAI_DEPLOYMENT_NAME'' \<mapsto> ''gpt-4o'',
      ''AZURE_OPENAI_API_KEY'' \<mapsto> ''secret'']"

definition connected_process :: process where
  "connected_process =
     startup example_env (upstream_returns 200 ''OK'' (Inr (completion_doc (JStr ''Try X''))))"

definition disconnected_process :: process where
  "disconnected_process =
     startup example_env (upstream_raises (Exc ConnectionError ''refused''))"

section \<open>Auxiliary facts\<close>

lemmas print_eval =
  print_value_def py_print_def user_message_label_def bot_response_label_def
  self_test_label_def utf8_width_def utf8_point_def is_surrogate_def hex4_def hex_digit_def
  char_of_eq_iff

lemma print_label_only: "print_value user_message_label (JStr '''') = None"
  by (simp add: print_eval)

lemma print_comedy: "print_value user_message_label (JStr ''recommend a comedy'') = None"
  by (simp add: print_eval)

lemma print_try_x: "print_value bot_response_label (JStr ''Try X'') = None"
  by (simp add: print_eval)

lemma print_self_test: "print_value self_test_label (JStr ''Try X'') = None"
  by (simp add: print_eval)

lemma completion_request_finite:
  "json_finite (post_json (completion_request env m)) = json_finite m"
  by (simp add: completion_request_def)

lemma requests_post_answer:
  "fst (requests_post env net req) = Inr r \<Longrightarrow> requests_post env net req = (Inr r, [req])"
  by (auto simp: requests_post_def split: if_splits)

lemma call_finite:
  "json_finite m \<Longrightarrow>
   call_azure_openai env net m =
     (case and_then (net env (completion_request env m)) read_content of
        Inl e \<Rightarrow> Inl (reraise e)
      | Inr content \<Rightarrow> Inr content,
      [completion_request env m])"
  by (simp add: call_azure_openai_def try_block_def requests_post_def completion_request_finite
      split: sum.splits)

lemma call_not_finite:
  "\<not> json_finite m \<Longrightarrow>
   call_azure_openai env net m =
     (Inl (Exc Exception ''Network error: Out of range float values are not JSON compliant''), [])"
  by (simp add: call_azure_openai_def try_block_def requests_post_def completion_request_finite
      and_then_def reraise_def)

lemma call_sent:
  "snd (call_azure_openai env net m) = (if json_finite m then [completion_request env m] else [])"
  by (simp add: call_finite call_not_finite)

lemma call_answered:
  "fst (requests_post env net (completion_request env m)) = Inr r \<Longrightarrow>
   fst (call_azure_openai env net m) =
     (case read_content r of Inl e \<Rightarrow> Inl (reraise e) | Inr content \<Rightarrow> Inr content)"
  by (drule requests_post_answer)
     (simp add: call_azure_openai_def try_block_def and_then_def split: sum.splits)

lemma raise_for_status_ok:
  "\<not> (400 \<le> status_code r \<and> status_code r < 600) \<Longrightarrow> raise_for_status r = None"
  by (auto simp: raise_for_status_def)

lemma read_content_found:
  assumes "raise_for_status r = None"
    and "json_body r = Inr (JObj obj)"
    and "map_of obj ''choices'' = Some (JArr (JObj choice # rest))"
    and "map_of choice ''message'' = Some (JObj message)"
    and "map_of message ''content'' = Some content"
  shows "read_content r = Inr content"
  using assms by (simp add: read_content_def and_then_def getitem_key_def getitem_0_def)

lemma read_content_missing_key:
  assumes "raise_for_status r = None"
    and "json_body r = Inr (JObj obj)"
    and "map_of obj ''choices'' = None \<or>
         map_of obj ''choices'' = Some (JObj other) \<or>
         map_of obj ''choices'' = Some (JArr (JObj choice # rest)) \<and>
         (map_of choice ''message'' = None \<or>
          map_of choice ''message'' = Some (JObj message) \<and>
          map_of message ''content'' = None)"
  shows "\<exists>k. read_content r = Inl (Exc KeyError k)"
  using assms
  by (auto simp: read_content_def and_then_def getitem_key_def getitem_0_def)

lemma connected_process_flag: "azure_connected connected_process"
  by (simp add: connected_process_def startup_def call_finite upstream_returns_def and_then_def
      read_content_def raise_for_status_def completion_doc_def getitem_key_def getitem_0_def
      print_self_test)

lemma connected_process_environ: "environ connected_process = example_env"
  by (simp add: connected_process_def startup_def)

lemma disconnected_process_flag: "\<not> azure_connected disconnected_process"
  by (simp add: disconnected_process_def startup_def call_finite upstream_raises_def and_then_def)

lemma timeout_failure:
  "json_finite m \<Longrightarrow>
   fst (call_azure_openai env (upstream_raises (Exc Timeout ''Read timed out.'')) m) =
     Inl (Exc Exception ''Network error: Read timed out.'')"
  by (simp add: call_finite upstream_raises_def and_then_def reraise_def)

lemma str_nat_401: "str_nat 401 = ''401''"
  by code_simp

section \<open>The chat route\<close>

text \<open>
  Claim C1. While \<^verbatim>\<open>azure_connected\<close> is false, \<^verbatim>\<open>POST /api/chat\<close> answers 500 with
  the fixed text "Azure OpenAI is not connected. Please check your configuration." and
  status "error", whatever the request carries and whatever the network would answer,
  and no request is sent: the completion client is not called.
\<close>

theorem chat_not_connected:
  assumes "\<not> azure_connected p"
  shows "chat p net request =
           (\<lparr> status = 500,
              body = JObj [(''reply'',
                            JStr ''Azure OpenAI is not connected. Please check your configuration.''),
                           (''status'', JStr ''error'')] \<rparr>, [])"
  using assms by (simp add: chat_def)

text \<open>
  The process whose self-test found the upstream unreachable refuses a chat request
  even when the upstream has come back since.
\<close>

theorem chat_not_connected_witness:
  "\<not> azure_connected disconnected_process \<and>
   chat disconnected_process
     (upstream_returns 200 ''OK'' (Inr (completion_doc (JStr ''Try X''))))
     \<lparr> request_json = Inr (JObj [(''message'', JStr ''recommend a comedy'')]) \<rparr> =
     (\<lparr> status = 500,
        body = JObj [(''reply'',
                      JStr ''Azure OpenAI is not connected. Please check your configuration.''),
                     (''status'', JStr ''error'')] \<rparr>, [])"
  using disconnected_process_flag chat_not_connected [OF disconnected_process_flag]
  by simp

text \<open>
  Claim C2. While \<^verbatim>\<open>azure_connected\<close> is true, when the completion client, called
  with the message of the request, raises an exception \<open>e\<close>, \<^verbatim>\<open>POST /api/chat\<close>
  answers 500 with status "error" and a reply that ends with the text of \<open>e\<close>. The
  client is called once the message has been printed.
\<close>

theorem chat_client_failure:
  assumes "azure_connected p"
    and "request_json request = Inr (JObj kvs)"
    and "print_value user_message_label
           (case map_of kvs ''message'' of Some x \<Rightarrow> x | None \<Rightarrow> JStr '''') = None"
    and "fst (call_azure_openai (environ p) net
                (case map_of kvs ''message'' of Some x \<Rightarrow> x | None \<Rightarrow> JStr '''')) = Inl e"
  shows "fst (chat p net request) =
           \<lparr> status = 500,
             body = JObj [(''reply'',
                           JStr (''I'm having trouble connecting to the movie database: '' @
                                 exc_str e)),
                          (''status'', JStr ''error'')] \<rparr>"
  using assms
  by (cases "call_azure_openai (environ p) net
                (case map_of kvs ''message'' of Some x \<Rightarrow> x | None \<Rightarrow> JStr '''')")
     (simp add: chat_def and_then_def dict_get_def chat_error_def)

theorem chat_client_failure_witness:
  "fst (chat connected_process (upstream_raises (Exc Timeout ''Read timed out.''))
          \<lparr> request_json = Inr (JObj [(''message'', JStr ''recommend a comedy'')]) \<rparr>) =
     \<lparr> status = 500,
       body = JObj [(''reply'',
                     JStr ''I'm having trouble connecting to the movie database: Network error: Read timed out.''),
                    (''status'', JStr ''error'')] \<rparr>"
  using chat_client_failure [OF connected_process_flag, of
      "\<lparr> request_json = Inr (JObj [(''message'', JStr ''recommend a comedy'')]) \<rparr>"
      "[(''message'', JStr ''recommend a comedy'')]"
      "upstream_raises (Exc Timeout ''Read timed out.'')"
      "Exc Exception ''Network error: Read timed out.''"]
  by (simp add: timeout_failure print_comedy)

text \<open>
  Claim C3 asks for status 200 and a non-empty reply whenever the upstream call
  succeeds. The handler hands on whatever \<^verbatim>\<open>choices[0].message.content\<close> holds and
  never looks at it: a connected process, a message that is a string and an upstream
  that answers 200 with a body of the expected shape whose content is the empty string
  give status 200, status "success" and the empty reply. And the handler prints the
  reply before it answers: when the content is a string with a lone surrogate, the
  \<^verbatim>\<open>print\<close> of line 119 raises and the answer is 500 with status "error".
\<close>

theorem chat_reply_counterexample:
  "fst (chat connected_process
          (upstream_returns 200 ''OK'' (Inr (completion_doc (JStr ''''))))
          \<lparr> request_json = Inr (JObj [(''message'', JStr ''recommend a comedy'')]) \<rparr>) =
     \<lparr> status = 200, body = JObj [(''reply'', JStr ''''), (''status'', JStr ''success'')] \<rparr> \<and>
   fst (chat connected_process
          (upstream_returns 200 ''OK''
             (Inr (completion_doc (JStr (''Try '' @ [CHR 0xED, CHR 0xA0, CHR 0xBD])))))
          \<lparr> request_json = Inr (JObj [(''message'', JStr ''recommend a comedy'')]) \<rparr>) =
     \<lparr> status = 500,
       body = JObj [(''reply'',
                     JStr (''I'm having trouble connecting to the movie database: '' @
                           [CHR 0x27] @ ''utf-8'' @ [CHR 0x27] @
                           '' codec can't encode character '' @ [CHR 0x27, CHR 0x5C] @
                           ''ud83d'' @ [CHR 0x27] @
                           '' in position 20: surrogates not allowed'')),
                    (''status'', JStr ''error'')] \<rparr>"
  using connected_process_flag
  by (simp add: chat_def and_then_def dict_get_def call_finite connected_process_environ
      upstream_returns_def read_content_def raise_for_status_def completion_doc_def
      getitem_key_def getitem_0_def chat_error_def print_eval)

text \<open>
  Claim C3, amended. While \<^verbatim>\<open>azure_connected\<close> is true, for every request whose
  \<^verbatim>\<open>message\<close> is a string, when the upstream answers the request of the client with a
  2xx status and a body that holds \<^verbatim>\<open>choices[0].message.content\<close>, and the handler's
  two prints, of the message and of the reply, succeed, \<^verbatim>\<open>POST /api/chat\<close> answers 200
  with status "success" and a reply equal to that content; the reply is non-empty
  exactly when the upstream's content is.
\<close>

theorem chat_upstream_success:
  assumes "azure_connected p"
    and "request_json request = Inr (JObj kvs)"
    and "map_of kvs ''message'' = Some (JStr msg)"
    and "print_value user_message_label (JStr msg) = None"
    and "net (environ p) (completion_request (environ p) (JStr msg)) = Inr r"
    and "200 \<le> status_code r \<and> status_code r < 300"
    and "json_body r = Inr (JObj obj)"
    and "map_of obj ''choices'' = Some (JArr (JObj choice # rest))"
    and "map_of choice ''message'' = Some (JObj message)"
    and "map_of message ''content'' = Some content"
    and "print_value bot_response_label content = None"
  shows "fst (chat p net request) =
           \<lparr> status = 200, body = JObj [(''reply'', content), (''status'', JStr ''success'')] \<rparr>"
proof -
  from assms(6) have "raise_for_status r = None"
    by (intro raise_for_status_ok) simp
  with assms have "read_content r = Inr content"
    by (intro read_content_found)
  with assms(5) have "call_azure_openai (environ p) net (JStr msg) =
      (Inr content, [completion_request (environ p) (JStr msg)])"
    by (simp add: call_finite and_then_def)
  with assms(1-4,11) show ?thesis
    by (simp add: chat_def and_then_def dict_get_def)
qed

text \<open>The example of the specification: the stub upstream answers "Try X".\<close>

theorem chat_upstream_success_witness:
  "fst (chat connected_process
          (upstream_returns 200 ''OK'' (Inr (completion_doc (JStr ''Try X''))))
          \<lparr> request_json = Inr (JObj [(''message'', JStr ''recommend a comedy'')]) \<rparr>) =
     \<lparr> status = 200, body = JObj [(''reply'', JStr ''Try X''), (''status'', JStr ''success'')] \<rparr>"
  using chat_upstream_success [OF connected_process_flag, of
      "\<lparr> request_json = Inr (JObj [(''message'', JStr ''recommend a comedy'')]) \<rparr>"
      "[(''message'', JStr ''recommend a comedy'')]"
      "''recommend a comedy''"
      "upstream_returns 200 ''OK'' (Inr (completion_doc (JStr ''Try X'')))"
      "\<lparr> status_code = 200, reason = ''OK'',
         resp_url = post_url (completion_request example_env (JStr ''recommend a comedy'')),
         json_body = Inr (completion_doc (JStr ''Try X'')) \<rparr>"
      "[(''choices'', JArr [JObj [(''message'', JObj [(''content'', JStr ''Try X'')])]])]"
      "[(''message'', JObj [(''content'', JStr ''Try X'')])]"
      "[]"
      "[(''content'', JStr ''Try X'')]"
      "JStr ''Try X''"]
  by (simp add: connected_process_environ upstream_returns_def completion_doc_def
      print_comedy print_try_x)

text \<open>
  Claim C5. A request whose JSON body is an object without \<^verbatim>\<open>message\<close> is handled
  exactly as the request with the body \<^verbatim>\<open>{"message": ""}\<close>: same response, same
  requests sent. In a connected process the one request sent is the client's request
  for the empty string, so the client was called with \<^verbatim>\<open>""\<close>.
\<close>

theorem chat_message_absent:
  assumes "request_json request = Inr (JObj kvs)"
    and "map_of kvs ''message'' = None"
  shows "chat p net request =
           chat p net \<lparr> request_json = Inr (JObj [(''message'', JStr '''')]) \<rparr> \<and>
         (azure_connected p \<longrightarrow>
            snd (chat p net request) = [completion_request (environ p) (JStr '''')])"
proof -
  have sent: "snd (call_azure_openai (environ p) net (JStr '''')) =
      [completion_request (environ p) (JStr '''')]"
    by (simp add: call_sent)
  from assms have same: "chat p net request =
      chat p net \<lparr> request_json = Inr (JObj [(''message'', JStr '''')]) \<rparr>"
    by (simp add: chat_def and_then_def dict_get_def)
  have "azure_connected p \<Longrightarrow>
      snd (chat p net request) = [completion_request (environ p) (JStr '''')]"
    using assms sent
    by (cases "call_azure_openai (environ p) net (JStr '''')")
       (auto simp: chat_def and_then_def dict_get_def print_label_only
          split: sum.splits option.splits)
  with same show ?thesis by blast
qed

theorem chat_message_absent_witness:
  "chat connected_process (upstream_returns 200 ''OK'' (Inr (completion_doc (JStr ''Try X''))))
     \<lparr> request_json = Inr (JObj [(''prompt'', JStr ''recommend a comedy'')]) \<rparr> =
   chat connected_process (upstream_returns 200 ''OK'' (Inr (completion_doc (JStr ''Try X''))))
     \<lparr> request_json = Inr (JObj [(''message'', JStr '''')]) \<rparr> \<and>
   snd (chat connected_process
          (upstream_returns 200 ''OK'' (Inr (completion_doc (JStr ''Try X''))))
          \<lparr> request_json = Inr (JObj [(''prompt'', JStr ''recommend a comedy'')]) \<rparr>) =
     [completion_request example_env (JStr '''')]"
proof -
  have h: "chat connected_process
        (upstream_returns 200 ''OK'' (Inr (completion_doc (JStr ''Try X''))))
        \<lparr> request_json = Inr (JObj [(''prompt'', JStr ''recommend a comedy'')]) \<rparr> =
      chat connected_process
        (upstream_returns 200 ''OK'' (Inr (completion_doc (JStr ''Try X''))))
        \<lparr> request_json = Inr (JObj [(''message'', JStr '''')]) \<rparr> \<and>
      (azure_connected connected_process \<longrightarrow>
       snd (chat connected_process
              (upstream_returns 200 ''OK'' (Inr (completion_doc (JStr ''Try X''))))
              \<lparr> request_json = Inr (JObj [(''prompt'', JStr ''recommend a comedy'')]) \<rparr>) =
         [completion_request (environ connected_process) (JStr '''')])"
    by (rule chat_message_absent [of _ "[(''prompt'', JStr ''recommend a comedy'')]"]) simp_all
  from h have a: "chat connected_process
        (upstream_returns 200 ''OK'' (Inr (completion_doc (JStr ''Try X''))))
        \<lparr> request_json = Inr (JObj [(''prompt'', JStr ''recommend a comedy'')]) \<rparr> =
      chat connected_process
        (upstream_returns 200 ''OK'' (Inr (completion_doc (JStr ''Try X''))))
        \<lparr> request_json = Inr (JObj [(''message'', JStr '''')]) \<rparr>"
    by (rule conjunct1)
  from h connected_process_flag have b: "snd (chat connected_process
        (upstream_returns 200 ''OK'' (Inr (completion_doc (JStr ''Try X''))))
        \<lparr> request_json = Inr (JObj [(''prompt'', JStr ''recommend a comedy'')]) \<rparr>) =
      [completion_request (environ connected_process) (JStr '''')]"
    by blast
  from a b [unfolded connected_process_environ] show ?thesis
    by (rule conjI)
qed

text \<open>
  Claim C9. While \<^verbatim>\<open>azure_connected\<close> is true, a request whose body is not a JSON
  object, because \<^verbatim>\<open>request.json\<close> raises (no body, a body that cannot be decoded) or
  gives a value that is not a \<^verbatim>\<open>dict\<close> (JSON \<^verbatim>\<open>null\<close> among them), does not get the
  empty-string default: the access raises inside the handler, nothing is sent
  upstream, and the response is 500 with status "error" and a reply that ends with the
  text of the exception.
\<close>

theorem chat_body_not_object:
  assumes "azure_connected p"
    and "\<forall>kvs. request_json request \<noteq> Inr (JObj kvs)"
  shows "chat p net request =
           (\<lparr> status = 500,
              body = JObj [(''reply'',
                            JStr (''I'm having trouble connecting to the movie database: '' @
                                  (case request_json request of
                                     Inl e \<Rightarrow> exc_str e
                                   | Inr j \<Rightarrow> [CHR 0x27] @ py_type_name j @ [CHR 0x27] @
                                             '' object has no attribute 'get'' @ [CHR 0x27]))),
                           (''status'', JStr ''error'')] \<rparr>, [])"
proof (cases "request_json request")
  case (Inl e)
  with assms(1) show ?thesis
    by (simp add: chat_def and_then_def chat_error_def)
next
  case (Inr j)
  with assms(2) have "\<forall>kvs. j \<noteq> JObj kvs" by simp
  then have "dict_get j ''message'' (JStr '''') =
      Inl (Exc AttributeError ([CHR 0x27] @ py_type_name j @ [CHR 0x27] @
             '' object has no attribute 'get'' @ [CHR 0x27]))"
    by (cases j) (simp_all add: dict_get_def)
  with assms(1) Inr show ?thesis
    by (simp add: chat_def and_then_def chat_error_def)
qed

theorem chat_body_not_object_witness:
  "chat connected_process (upstream_returns 200 ''OK'' (Inr (completion_doc (JStr ''Try X''))))
     \<lparr> request_json = Inr JNull \<rparr> =
     (\<lparr> status = 500,
        body = JObj [(''reply'',
                      JStr (''I'm having trouble connecting to the movie database: '' @
                            [CHR 0x27] @ ''NoneType'' @ [CHR 0x27] @
                            '' object has no attribute 'get'' @ [CHR 0x27])),
                     (''status'', JStr ''error'')] \<rparr>, []) \<and>
   chat connected_process (upstream_returns 200 ''OK'' (Inr (completion_doc (JStr ''Try X''))))
     \<lparr> request_json = Inl (Exc BadRequest ''400 Bad Request: Failed to decode JSON object'') \<rparr> =
     (\<lparr> status = 500,
        body = JObj [(''reply'',
                      JStr ''I'm having trouble connecting to the movie database: 400 Bad Request: Failed to decode JSON object''),
                     (''status'', JStr ''error'')] \<rparr>, [])"
proof -
  have h1: "\<forall>kvs. request_json \<lparr> request_json = Inr JNull \<rparr> \<noteq> Inr (JObj kvs)"
    by simp
  have h2: "\<forall>kvs. request_json
      \<lparr> request_json = Inl (Exc BadRequest ''400 Bad Request: Failed to decode JSON object'') \<rparr>
      \<noteq> Inr (JObj kvs)"
    by simp
  show ?thesis
    using chat_body_not_object [OF connected_process_flag h1]
      chat_body_not_object [OF connected_process_flag h2]
    by (simp add: py_type_name_def)
qed

section \<open>The completion client\<close>

text \<open>
  Claim C7. When \<^verbatim>\<open>requests.post\<close> returns a response with a 2xx status and a JSON
  body that holds \<^verbatim>\<open>choices[0].message.content\<close>, the completion client returns exactly
  that value.
\<close>

theorem client_returns_content:
  assumes "fst (requests_post env net (completion_request env m)) = Inr r"
    and "200 \<le> status_code r \<and> status_code r < 300"
    and "json_body r = Inr (JObj obj)"
    and "map_of obj ''choices'' = Some (JArr (JObj choice # rest))"
    and "map_of choice ''message'' = Some (JObj message)"
    and "map_of message ''content'' = Some content"
  shows "fst (call_azure_openai env net m) = Inr content"
proof -
  from assms(2) have "raise_for_status r = None"
    by (intro raise_for_status_ok) simp
  with assms have "read_content r = Inr content"
    by (intro read_content_found)
  with assms(1) show ?thesis
    by (simp add: call_answered)
qed

theorem client_returns_content_witness:
  "fst (call_azure_openai example_env
          (upstream_returns 200 ''OK'' (Inr (completion_doc (JStr ''Try X''))))
          (JStr ''recommend a comedy'')) = Inr (JStr ''Try X'')"
  using client_returns_content [of example_env
      "upstream_returns 200 ''OK'' (Inr (completion_doc (JStr ''Try X'')))"
      "JStr ''recommend a comedy''"
      "\<lparr> status_code = 200, reason = ''OK'',
         resp_url = post_url (completion_request example_env (JStr ''recommend a comedy'')),
         json_body = Inr (completion_doc (JStr ''Try X'')) \<rparr>"
      "[(''choices'', JArr [JObj [(''message'', JObj [(''content'', JStr ''Try X'')])]])]"
      "[(''message'', JObj [(''content'', JStr ''Try X'')])]"
      "[]"
      "[(''content'', JStr ''Try X'')]"
      "JStr ''Try X''"]
  by (simp add: requests_post_def completion_request_finite upstream_returns_def
      completion_doc_def)





text \<open>
  Claim C4 says that every answer outside 2xx is raised as a network error. The client
  leaves the decision to \<^verbatim>\<open>raise_for_status\<close>, which raises for 400 to 599 only: an
  answer with status 300, which \<^verbatim>\<open>requests\<close> does not follow as a redirect, and a
  body of the expected shape is returned as a normal result.
\<close>

theorem non_2xx_not_network_error_counterexample:
  "fst (call_azure_openai example_env
          (upstream_returns 300 ''Multiple Choices'' (Inr (completion_doc (JStr ''Try X''))))
          (JStr ''recommend a comedy'')) = Inr (JStr ''Try X'')"
  by (simp add: call_finite upstream_returns_def and_then_def read_content_def
      raise_for_status_def completion_doc_def getitem_key_def getitem_0_def)

text \<open>
  Claim C4, amended. The completion client classifies every failure of the outbound
  call by the class of the exception that ends the \<^verbatim>\<open>try\<close> block. Every exception of
  the \<^verbatim>\<open>requests\<close> library leaves the client as \<^verbatim>\<open>Exception("Network error: ...")\<close>
  whose text ends with the text of the cause: one raised by \<^verbatim>\<open>requests.post\<close>
  (connection failure, timeout, a message that cannot be serialised), the
  \<^verbatim>\<open>HTTPError\<close> of an answer with a status from 400 to 599, and the one
  \<^verbatim>\<open>response.json()\<close> raises for a body that cannot be decoded. Every \<^verbatim>\<open>KeyError\<close>
  leaves it as \<^verbatim>\<open>Exception("Invalid response format from Azure OpenAI")\<close>: a body that
  is an object without \<^verbatim>\<open>choices\<close>, whose \<^verbatim>\<open>choices\<close> is itself an object, whose
  first choice is an object without \<^verbatim>\<open>message\<close>, or whose message is an object without
  \<^verbatim>\<open>content\<close>. Every other exception leaves the client unchanged; an empty
  \<^verbatim>\<open>choices\<close> array is one, with its \<^verbatim>\<open>IndexError\<close>.
\<close>

theorem client_failure_classes:
  "fst (call_azure_openai env net m) =
     (case fst (try_block env net m) of
        Inr content \<Rightarrow> Inr content
      | Inl e \<Rightarrow>
          Inl (if is_RequestException (exc_class_of e) then
                 Exc Exception (''Network error: '' @ exc_str e)
               else if exc_class_of e = KeyError then
                 Exc Exception ''Invalid response format from Azure OpenAI''
               else e)) \<and>
   (fst (requests_post env net (completion_request env m)) = Inl e \<and>
    is_RequestException (exc_class_of e) \<longrightarrow>
      fst (call_azure_openai env net m) =
        Inl (Exc Exception (''Network error: '' @ exc_str e))) \<and>
   (fst (requests_post env net (completion_request env m)) = Inr r \<and>
    400 \<le> status_code r \<and> status_code r < 600 \<longrightarrow>
      fst (call_azure_openai env net m) =
        Inl (Exc Exception
               (''Network error: '' @ str_nat (status_code r) @
                (if status_code r < 500 then '' Client Error: '' else '' Server Error: '') @
                reason r @ '' for url: '' @ resp_url r))) \<and>
   (fst (requests_post env net (completion_request env m)) = Inr r \<and>
    \<not> (400 \<le> status_code r \<and> status_code r < 600) \<and>
    json_body r = Inl e \<and> is_RequestException (exc_class_of e) \<longrightarrow>
      fst (call_azure_openai env net m) =
        Inl (Exc Exception (''Network error: '' @ exc_str e))) \<and>
   (fst (requests_post env net (completion_request env m)) = Inr r \<and>
    \<not> (400 \<le> status_code r \<and> status_code r < 600) \<and>
    json_body r = Inr (JObj obj) \<and>
    (map_of obj ''choices'' = None \<or>
     map_of obj ''choices'' = Some (JObj other) \<or>
     map_of obj ''choices'' = Some (JArr (JObj choice # rest)) \<and>
     (map_of choice ''message'' = None \<or>
      map_of choice ''message'' = Some (JObj message) \<and>
      map_of message ''content'' = None)) \<longrightarrow>
      fst (call_azure_openai env net m) =
        Inl (Exc Exception ''Invalid response format from Azure OpenAI'')) \<and>
   (fst (requests_post env net (completion_request env m)) = Inr r \<and>
    \<not> (400 \<le> status_code r \<and> status_code r < 600) \<and>
    json_body r = Inr (JObj obj) \<and> map_of obj ''choices'' = Some (JArr []) \<longrightarrow>
      fst (call_azure_openai env net m) = Inl (Exc IndexError ''list index out of range''))"
proof (intro conjI impI)
  show "fst (call_azure_openai env net m) =
     (case fst (try_block env net m) of
        Inr content \<Rightarrow> Inr content
      | Inl e \<Rightarrow>
          Inl (if is_RequestException (exc_class_of e) then
                 Exc Exception (''Network error: '' @ exc_str e)
               else if exc_class_of e = KeyError then
                 Exc Exception ''Invalid response format from Azure OpenAI''
               else e))"
    by (cases "try_block env net m")
       (simp add: call_azure_openai_def reraise_def split: sum.splits)
next
  assume h: "fst (requests_post env net (completion_request env m)) = Inl e \<and>
    is_RequestException (exc_class_of e)"
  then have "fst (try_block env net m) = Inl e"
    by (cases "requests_post env net (completion_request env m)")
       (simp add: try_block_def and_then_def)
  with h show "fst (call_azure_openai env net m) =
      Inl (Exc Exception (''Network error: '' @ exc_str e))"
    by (cases "try_block env net m") (simp add: call_azure_openai_def reraise_def)
next
  assume "fst (requests_post env net (completion_request env m)) = Inr r \<and>
    400 \<le> status_code r \<and> status_code r < 600"
  then show "fst (call_azure_openai env net m) =
      Inl (Exc Exception
             (''Network error: '' @ str_nat (status_code r) @
              (if status_code r < 500 then '' Client Error: '' else '' Server Error: '') @
              reason r @ '' for url: '' @ resp_url r))"
    by (simp add: call_answered read_content_def raise_for_status_def reraise_def
        del: str_nat.simps)
next
  assume h: "fst (requests_post env net (completion_request env m)) = Inr r \<and>
    \<not> (400 \<le> status_code r \<and> status_code r < 600) \<and>
    json_body r = Inl e \<and> is_RequestException (exc_class_of e)"
  then have "raise_for_status r = None"
    by (intro raise_for_status_ok) simp
  with h show "fst (call_azure_openai env net m) =
      Inl (Exc Exception (''Network error: '' @ exc_str e))"
    by (simp add: call_answered read_content_def and_then_def reraise_def)
next
  assume h: "fst (requests_post env net (completion_request env m)) = Inr r \<and>
    \<not> (400 \<le> status_code r \<and> status_code r < 600) \<and>
    json_body r = Inr (JObj obj) \<and>
    (map_of obj ''choices'' = None \<or>
     map_of obj ''choices'' = Some (JObj other) \<or>
     map_of obj ''choices'' = Some (JArr (JObj choice # rest)) \<and>
     (map_of choice ''message'' = None \<or>
      map_of choice ''message'' = Some (JObj message) \<and>
      map_of message ''content'' = None))"
  then have "raise_for_status r = None"
    by (intro raise_for_status_ok) simp
  with h obtain k where "read_content r = Inl (Exc KeyError k)"
    using read_content_missing_key [of r obj other choice rest message] by blast
  with h show "fst (call_azure_openai env net m) =
      Inl (Exc Exception ''Invalid response format from Azure OpenAI'')"
    by (simp add: call_answered reraise_def)
next
  assume h: "fst (requests_post env net (completion_request env m)) = Inr r \<and>
    \<not> (400 \<le> status_code r \<and> status_code r < 600) \<and>
    json_body r = Inr (JObj obj) \<and> map_of obj ''choices'' = Some (JArr [])"
  then have "raise_for_status r = None"
    by (intro raise_for_status_ok) simp
  with h show "fst (call_azure_openai env net m) =
      Inl (Exc IndexError ''list index out of range'')"
    by (simp add: call_answered read_content_def and_then_def reraise_def
        getitem_key_def getitem_0_def)
qed


text \<open>
  One upstream for each class: a refused connection, a 401, a body that is not JSON, a
  body without \<^verbatim>\<open>choices\<close>, a first choice that is \<^verbatim>\<open>null\<close>, and an empty
  \<^verbatim>\<open>choices\<close> array.
\<close>

theorem client_failure_classes_witness:
  "fst (call_azure_openai example_env (upstream_raises (Exc ConnectionError ''refused''))
          (JStr ''hi'')) = Inl (Exc Exception ''Network error: refused'') \<and>
   fst (call_azure_openai example_env (upstream_returns 401 ''Unauthorized'' (Inr JNull))
          (JStr ''hi'')) =
     Inl (Exc Exception ''Network error: 401 Client Error: Unauthorized for url: https://movies.openai.azure.com/openai/deployments/gpt-4o/chat/completions?api-version=2024-02-01'') \<and>
   fst (call_azure_openai example_env
          (upstream_returns 200 ''OK''
             (Inl (Exc RequestsJSONDecodeError ''Expecting value: line 1 column 1 (char 0)'')))
          (JStr ''hi'')) =
     Inl (Exc Exception ''Network error: Expecting value: line 1 column 1 (char 0)'') \<and>
   fst (call_azure_openai example_env
          (upstream_returns 200 ''OK'' (Inr (JObj [(''error'', JStr ''quota'')])))
          (JStr ''hi'')) = Inl (Exc Exception ''Invalid response format from Azure OpenAI'') \<and>
   fst (call_azure_openai example_env
          (upstream_returns 200 ''OK'' (Inr (JObj [(''choices'', JArr [JNull])])))
          (JStr ''hi'')) =
     Inl (Exc TypeError
            ([CHR 0x27] @ ''NoneType'' @ [CHR 0x27] @ '' object is not subscriptable'')) \<and>
   fst (call_azure_openai example_env
          (upstream_returns 200 ''OK'' (Inr (JObj [(''choices'', JArr [])])))
          (JStr ''hi'')) = Inl (Exc IndexError ''list index out of range'')"
proof -
  let ?req = "completion_request example_env (JStr ''hi'')"
  let ?r0 = "\<lparr> status_code = 200, reason = [], resp_url = [], json_body = Inr JNull \<rparr>"
  have a: "fst (call_azure_openai example_env (upstream_raises (Exc ConnectionError ''refused''))
          (JStr ''hi'')) = Inl (Exc Exception ''Network error: refused'')"
    using client_failure_classes [where net = "upstream_raises (Exc ConnectionError ''refused'')"
        and env = example_env and m = "JStr ''hi''" and e = "Exc ConnectionError ''refused''"
        and r = ?r0 and obj = "[]" and other = "[]" and choice = "[]" and rest = "[]"
        and message = "[]", THEN conjunct2]
    by (simp add: requests_post_def completion_request_finite upstream_raises_def)
  have b: "fst (call_azure_openai example_env (upstream_returns 401 ''Unauthorized'' (Inr JNull))
          (JStr ''hi'')) =
     Inl (Exc Exception ''Network error: 401 Client Error: Unauthorized for url: https://movies.openai.azure.com/openai/deployments/gpt-4o/chat/completions?api-version=2024-02-01'')"
    using client_failure_classes [where net = "upstream_returns 401 ''Unauthorized'' (Inr JNull)"
        and env = example_env and m = "JStr ''hi''" and e = "Exc Exception []"
        and r = "\<lparr> status_code = 401, reason = ''Unauthorized'', resp_url = post_url ?req,
                   json_body = Inr JNull \<rparr>"
        and obj = "[]" and other = "[]" and choice = "[]" and rest = "[]"
        and message = "[]", THEN conjunct2]
    by (simp add: requests_post_def completion_request_finite upstream_returns_def str_nat_401
        completion_request_def os_getenv_def fstr_def example_env_def del: str_nat.simps)
  have c: "fst (call_azure_openai example_env
          (upstream_returns 200 ''OK''
             (Inl (Exc RequestsJSONDecodeError ''Expecting value: line 1 column 1 (char 0)'')))
          (JStr ''hi'')) =
     Inl (Exc Exception ''Network error: Expecting value: line 1 column 1 (char 0)'')"
    using client_failure_classes [where
          net = "upstream_returns 200 ''OK''
             (Inl (Exc RequestsJSONDecodeError ''Expecting value: line 1 column 1 (char 0)''))"
        and env = example_env and m = "JStr ''hi''"
        and e = "Exc RequestsJSONDecodeError ''Expecting value: line 1 column 1 (char 0)''"
        and r = "\<lparr> status_code = 200, reason = ''OK'', resp_url = post_url ?req,
                   json_body = Inl (Exc RequestsJSONDecodeError
                                      ''Expecting value: line 1 column 1 (char 0)'') \<rparr>"
        and obj = "[]" and other = "[]" and choice = "[]" and rest = "[]"
        and message = "[]", THEN conjunct2]
    by (simp add: requests_post_def completion_request_finite upstream_returns_def
        del: str_nat.simps)
  have d: "fst (call_azure_openai example_env
          (upstream_returns 200 ''OK'' (Inr (JObj [(''error'', JStr ''quota'')])))
          (JStr ''hi'')) = Inl (Exc Exception ''Invalid response format from Azure OpenAI'')"
    using client_failure_classes [where
          net = "upstream_returns 200 ''OK'' (Inr (JObj [(''error'', JStr ''quota'')]))"
        and env = example_env and m = "JStr ''hi''" and e = "Exc Exception []"
        and r = "\<lparr> status_code = 200, reason = ''OK'', resp_url = post_url ?req,
                   json_body = Inr (JObj [(''error'', JStr ''quota'')]) \<rparr>"
        and obj = "[(''error'', JStr ''quota'')]" and other = "[]" and choice = "[]"
        and rest = "[]" and message = "[]", THEN conjunct2]
    by (simp add: requests_post_def completion_request_finite upstream_returns_def
        del: str_nat.simps)
  have e: "fst (call_azure_openai example_env
          (upstream_returns 200 ''OK'' (Inr (JObj [(''choices'', JArr [JNull])])))
          (JStr ''hi'')) =
     Inl (Exc TypeError
            ([CHR 0x27] @ ''NoneType'' @ [CHR 0x27] @ '' object is not subscriptable''))"
    using client_failure_classes [where
          net = "upstream_returns 200 ''OK'' (Inr (JObj [(''choices'', JArr [JNull])]))"
        and env = example_env and m = "JStr ''hi''" and e = "Exc Exception []"
        and r = ?r0 and obj = "[]" and other = "[]" and choice = "[]" and rest = "[]"
        and message = "[]", THEN conjunct1]
    by (simp add: try_block_def requests_post_def completion_request_finite
        upstream_returns_def and_then_def read_content_def raise_for_status_def
        getitem_key_def getitem_0_def not_subscriptable_def py_type_name_def
        del: str_nat.simps)
  have f: "fst (call_azure_openai example_env
          (upstream_returns 200 ''OK'' (Inr (JObj [(''choices'', JArr [])])))
          (JStr ''hi'')) = Inl (Exc IndexError ''list index out of range'')"
    using client_failure_classes [where
          net = "upstream_returns 200 ''OK'' (Inr (JObj [(''choices'', JArr [])]))"
        and env = example_env and m = "JStr ''hi''" and e = "Exc Exception []"
        and r = "\<lparr> status_code = 200, reason = ''OK'', resp_url = post_url ?req,
                   json_body = Inr (JObj [(''choices'', JArr [])]) \<rparr>"
        and obj = "[(''choices'', JArr [])]" and other = "[]" and choice = "[]"
        and rest = "[]" and message = "[]", THEN conjunct2]
    by (simp add: requests_post_def completion_request_finite upstream_returns_def
        del: str_nat.simps)
  from a b c d e f show ?thesis by (intro conjI)
qed

section \<open>The test route\<close>

text \<open>
  Claim C10. When the completion client succeeds, \<^verbatim>\<open>GET /api/test\<close> answers 200 with
  three fields: \<^verbatim>\<open>success\<close> true, \<^verbatim>\<open>response\<close> the reply, and \<^verbatim>\<open>message\<close>
  "Azure OpenAI is working!". When it fails, the answer is 500 with two fields only:
  \<^verbatim>\<open>success\<close> false and \<^verbatim>\<open>error\<close> the text of the exception.
\<close>

theorem test_connection_bodies:
  "(fst (call_azure_openai (environ p) net (JStr ''What are 2 popular movies on Netflix?'')) =
      Inr test_response \<longrightarrow>
    fst (test_connection p net) =
      \<lparr> status = 200,
        body = JObj [(''success'', JBool True),
                     (''response'', test_response),
                     (''message'', JStr ''Azure OpenAI is working!'')] \<rparr>) \<and>
   (fst (call_azure_openai (environ p) net (JStr ''What are 2 popular movies on Netflix?'')) =
      Inl e \<longrightarrow>
    fst (test_connection p net) =
      \<lparr> status = 500,
        body = JObj [(''success'', JBool False), (''error'', JStr (exc_str e))] \<rparr>)"
  by (cases "call_azure_openai (environ p) net (JStr ''What are 2 popular movies on Netflix?'')")
     (auto simp: test_connection_def)

theorem test_connection_bodies_witness:
  "fst (test_connection connected_process
          (upstream_returns 200 ''OK'' (Inr (completion_doc (JStr ''Try X''))))) =
     \<lparr> status = 200,
       body = JObj [(''success'', JBool True),
                    (''response'', JStr ''Try X''),
                    (''message'', JStr ''Azure OpenAI is working!'')] \<rparr> \<and>
   fst (test_connection connected_process (upstream_raises (Exc Timeout ''Read timed out.''))) =
     \<lparr> status = 500,
       body = JObj [(''success'', JBool False),
                    (''error'', JStr ''Network error: Read timed out.'')] \<rparr>"
proof -
  have ok: "fst (call_azure_openai (environ connected_process)
      (upstream_returns 200 ''OK'' (Inr (completion_doc (JStr ''Try X''))))
      (JStr ''What are 2 popular movies on Netflix?'')) = Inr (JStr ''Try X'')"
    by (simp add: call_finite upstream_returns_def and_then_def read_content_def
        raise_for_status_def completion_doc_def getitem_key_def getitem_0_def)
  show ?thesis
    using test_connection_bodies [of connected_process
        "upstream_returns 200 ''OK'' (Inr (completion_doc (JStr ''Try X'')))"
        "JStr ''Try X''" "Exc Exception []"]
      test_connection_bodies [of connected_process
        "upstream_raises (Exc Timeout ''Read timed out.'')"
        JNull "Exc Exception ''Network error: Read timed out.''"]
    by (simp add: ok timeout_failure)
qed

section \<open>Configuration at request time\<close>

text \<open>
  Claim C8 says that the settings are read once at process start, so that a later
  change of the environment has no effect. Both the completion client and
  \<^verbatim>\<open>/api/health\<close> call \<^verbatim>\<open>os.getenv\<close> when they run: after the deployment name of a
  started process is changed, \<^verbatim>\<open>/api/health\<close> reports the new name and the client
  posts to the new URL.
\<close>

theorem config_reread_counterexample:
  "health_check
     (connected_process
        \<lparr> environ := example_env(''AZURE_OPENAI_DEPLOYMENT_NAME'' \<mapsto> ''gpt-35-turbo'') \<rparr>) \<noteq>
   health_check connected_process \<and>
   call_azure_openai (example_env(''AZURE_OPENAI_DEPLOYMENT_NAME'' \<mapsto> ''gpt-35-turbo''))
     (upstream_returns 200 ''OK'' (Inr (completion_doc (JStr ''Try X''))))
     (JStr ''recommend a comedy'') \<noteq>
   call_azure_openai example_env
     (upstream_returns 200 ''OK'' (Inr (completion_doc (JStr ''Try X''))))
     (JStr ''recommend a comedy'')"
  by (simp add: health_check_def connected_process_environ call_finite
      completion_request_def os_getenv_def fstr_def example_env_def)

text \<open>
  Claim C8, amended. The four settings taken from the environment (endpoint, API
  version, deployment name, API key) are looked up at every call, and \<^verbatim>\<open>max_tokens\<close>
  and \<^verbatim>\<open>temperature\<close> are literals. The request the completion client builds depends
  on the environment only through the values these four variables have at the time of
  the call. What the client then does depends on the environment through these four
  values and through the answer of the transport, which reads the environment itself.
  The answer of \<^verbatim>\<open>/api/health\<close> depends on it only through the flag and the value
  of the deployment name at that time.
\<close>

theorem config_read_per_call:
  "((\<forall>k \<in> {''AZURE_OPENAI_ENDPOINT'', ''AZURE_OPENAI_DEPLOYMENT_NAME'',
            ''AZURE_OPENAI_API_VERSION'', ''AZURE_OPENAI_API_KEY''}. env k = env' k) \<longrightarrow>
      completion_request env m = completion_request env' m) \<and>
   ((\<forall>k \<in> {''AZURE_OPENAI_ENDPOINT'', ''AZURE_OPENAI_DEPLOYMENT_NAME'',
            ''AZURE_OPENAI_API_VERSION'', ''AZURE_OPENAI_API_KEY''}. env k = env' k) \<and>
    net env (completion_request env m) = net env' (completion_request env' m) \<longrightarrow>
      call_azure_openai env net m = call_azure_openai env' net m) \<and>
   (azure_connected p = azure_connected p' \<and>
    environ p ''AZURE_OPENAI_DEPLOYMENT_NAME'' = environ p' ''AZURE_OPENAI_DEPLOYMENT_NAME'' \<longrightarrow>
      health_check p = health_check p')"
proof (intro conjI impI)
  assume "\<forall>k \<in> {''AZURE_OPENAI_ENDPOINT'', ''AZURE_OPENAI_DEPLOYMENT_NAME'',
            ''AZURE_OPENAI_API_VERSION'', ''AZURE_OPENAI_API_KEY''}. env k = env' k"
  then show "completion_request env m = completion_request env' m"
    by (simp add: completion_request_def os_getenv_def)
next
  assume h: "(\<forall>k \<in> {''AZURE_OPENAI_ENDPOINT'', ''AZURE_OPENAI_DEPLOYMENT_NAME'',
            ''AZURE_OPENAI_API_VERSION'', ''AZURE_OPENAI_API_KEY''}. env k = env' k) \<and>
    net env (completion_request env m) = net env' (completion_request env' m)"
  then have "completion_request env m = completion_request env' m"
    by (simp add: completion_request_def os_getenv_def)
  with h show "call_azure_openai env net m = call_azure_openai env' net m"
    by (simp add: call_azure_openai_def try_block_def requests_post_def)
next
  assume "azure_connected p = azure_connected p' \<and>
    environ p ''AZURE_OPENAI_DEPLOYMENT_NAME'' = environ p' ''AZURE_OPENAI_DEPLOYMENT_NAME''"
  then show "health_check p = health_check p'"
    by (simp add: health_check_def os_getenv_def)
qed

text \<open>
  A change to a variable outside the four, with an upstream that does not look at the
  environment, is not seen by either.
\<close>

theorem config_read_per_call_witness:
  "completion_request example_env (JStr ''recommend a comedy'') =
   completion_request (example_env(''FLASK_ENV'' \<mapsto> ''production''))
     (JStr ''recommend a comedy'') \<and>
   call_azure_openai example_env
     (upstream_returns 200 ''OK'' (Inr (completion_doc (JStr ''Try X''))))
     (JStr ''recommend a comedy'') =
   call_azure_openai (example_env(''FLASK_ENV'' \<mapsto> ''production''))
     (upstream_returns 200 ''OK'' (Inr (completion_doc (JStr ''Try X''))))
     (JStr ''recommend a comedy'') \<and>
   health_check connected_process =
   health_check (connected_process \<lparr> environ := example_env(''FLASK_ENV'' \<mapsto> ''production'') \<rparr>)"
  using config_read_per_call [of example_env "example_env(''FLASK_ENV'' \<mapsto> ''production'')"
      "JStr ''recommend a comedy''"
      "upstream_returns 200 ''OK'' (Inr (completion_doc (JStr ''Try X'')))"
      connected_process
      "connected_process \<lparr> environ := example_env(''FLASK_ENV'' \<mapsto> ''production'') \<rparr>"]
  by (simp add: connected_process_environ upstream_returns_def)

end
